theory Spec2Isabelle
  imports Main "HOL-Library.Word" "HOL-Library.Multiset"
begin

section \<open>Data model of simplescp.go\<close>

text \<open>
  The options record of the scp command line, field for field as the Go struct
  \<open>scpOptions\<close> declares it.
\<close>

record scpOptions =
  To :: bool
  From :: bool
  TargetIsDir :: bool
  Recursive :: bool
  PreserveMode :: bool
  fileNames :: "string list"

text \<open>
  Everything a handler does to the outside world is recorded as an event, in program
  order.  \<open>Reply ok msg\<close> is \<open>req.Reply(ok, msg)\<close> (\<open>None\<close> for a nil payload),
  \<open>ChanWrite\<close> is \<open>channel.Write\<close>, \<open>ChanClose\<close> is \<open>channel.Close()\<close>,
  \<open>SendRequest name wantReply payload\<close> is \<open>channel.SendRequest\<close>.
  \<open>SendErrorToClient\<close>, \<open>StartSCPSource\<close> and \<open>StartSCPSink\<close> are calls of functions
  of the repository that live outside simplescp.go: the call is recorded with its
  arguments, what happens inside it is not modelled.  \<open>SFTPServe\<close> and \<open>SFTPClose\<close> are
  \<open>server.Serve()\<close> and the deferred \<open>server.Close()\<close> of the sftp library,
  \<open>GoHandleRequest\<close> is the statement \<open>go config.handleRequest(channel, req)\<close>,
  \<open>Reject\<close> is \<open>newChannel.Reject\<close> and \<open>LogError\<close> a line written through
  \<open>simplelog.Error\<close>.  Debug-level log lines are left out: they change nothing else.
\<close>

datatype event =
    Reply bool "string option"
  | ChanWrite string
  | ChanClose
  | SendRequest string bool "8 word list"
  | SendErrorToClient string
  | StartSCPSource scpOptions
  | StartSCPSink scpOptions
  | SFTPServe
  | SFTPClose
  | GoHandleRequest string
  | Reject string
  | LogError string

text \<open>
  A Go run-time panic ends the goroutine and, unrecovered as everywhere in this file,
  the whole process.
\<close>

datatype crash = IndexOutOfRange | SliceBoundsOutOfRange | Panic string

text \<open>What \<open>server.Serve()\<close> of the sftp library returns: nil, \<open>io.EOF\<close> or another error.\<close>

datatype serveResult = ServeNil | ServeEOF | ServeError string

text \<open>
  The results of the calls whose code is not in simplescp.go are parameters of the
  model (\<open>None\<close> is a nil error): the error returned by \<open>startSCPSource\<close>, the outcome of
  \<open>startSCPSink\<close>, the error of \<open>channel.SendRequest\<close>, of \<open>sftp.NewServer\<close>, of
  \<open>newChannel.Accept\<close>, and the result of \<open>server.Serve\<close>.
\<close>

record env =
  startSCPSource :: "scpOptions \<Rightarrow> string option"
  startSCPSink :: "scpOptions \<Rightarrow> string option"
  sendRequestErr :: "string option"
  sftpNewServerErr :: "string option"
  sftpServe :: serveResult
  acceptErr :: "string option"

section \<open>The functions of simplescp.go\<close>

text \<open>
  \<open>sendExitStatusCode\<close>: a four-byte buffer whose last byte is the status, sent as an
  \<open>exit-status\<close> request; a failure to send is only logged.
\<close>

definition sendExitStatusCode :: "env \<Rightarrow> 8 word \<Rightarrow> event list" where
  "sendExitStatusCode e status =
     (let exitStatusBuffer = (replicate 4 0)[3 := status]
      in SendRequest ''exit-status'' False exitStatusBuffer #
         (case sendRequestErr e of
            Some err \<Rightarrow> [LogError (''Failed to forward exit-status to client: '' @ err)]
          | None \<Rightarrow> []))"

text \<open>
  \<open>handleSFTP\<close>: when the server cannot be created the function returns at once;
  otherwise it serves, sends status 0 for a nil or end-of-file result and 1 for any
  other, closes the channel, and the deferred \<open>server.Close()\<close> runs last.
\<close>

definition handleSFTP :: "env \<Rightarrow> event list" where
  "handleSFTP e =
     (case sftpNewServerErr e of
        Some err \<Rightarrow> []
      | None \<Rightarrow>
          SFTPServe #
          (if sftpServe e = ServeNil \<or> sftpServe e = ServeEOF
           then sendExitStatusCode e 0
           else sendExitStatusCode e 1)
          @ [ChanClose] @ [SFTPClose])"

text \<open>
  The option loop of \<open>handleRequest\<close> (lines 114 to 142).  The loop state is the pair of
  the variable \<open>parseOpts\<close> and the options built so far; \<open>parseElem\<close> is one iteration.
  The whole \<open>switch\<close> sits under \<open>if parseOpts\<close>, so an element met while \<open>parseOpts\<close>
  is false leaves the state as it is.
\<close>

definition emptyOptions :: scpOptions where
  "emptyOptions =
     \<lparr>To = False, From = False, TargetIsDir = False, Recursive = False,
      PreserveMode = False, fileNames = []\<rparr>"

fun parseElem :: "bool \<times> scpOptions \<Rightarrow> string \<Rightarrow> bool \<times> scpOptions" where
  "parseElem (parseOpts, opts) elem =
     (if parseOpts then
        (if elem = ''-f'' then (parseOpts, opts\<lparr>From := True\<rparr>)
         else if elem = ''-t'' then (parseOpts, opts\<lparr>To := True\<rparr>)
         else if elem = ''-d'' then (parseOpts, opts\<lparr>TargetIsDir := True\<rparr>)
         else if elem = ''-p'' then (parseOpts, opts\<lparr>PreserveMode := True\<rparr>)
         else if elem = ''-r'' then (parseOpts, opts\<lparr>Recursive := True\<rparr>)
         else if elem = ''-v'' then (parseOpts, opts)
         else if elem = ''--'' then
           (if parseOpts then (False, opts)
            else (parseOpts, opts\<lparr>fileNames := fileNames opts @ [elem]\<rparr>))
         else (parseOpts, opts\<lparr>fileNames := fileNames opts @ [elem]\<rparr>))
      else (parseOpts, opts))"

definition parseOptions :: "string list \<Rightarrow> scpOptions" where
  "parseOptions args = snd (foldl parseElem (True, emptyOptions) args)"

text \<open>
  \<open>handleRequest\<close> from line 87 on, given the tokens \<open>s\<close> and the error \<open>err\<close> that
  \<open>shlex.Split\<close> returned.  A split error is logged (\<open>logSplitError\<close>) and nothing
  else; \<open>s[0]\<close> on an empty slice panics; \<open>s[1:]\<close> is the tail.
\<close>

definition logSplitError :: "string option \<Rightarrow> event list" where
  "logSplitError err =
     (case err of
        Some msg \<Rightarrow> [LogError (''Error when splitting payload: '' @ msg)]
      | None \<Rightarrow> [])"

definition handleRequestTokens :: "env \<Rightarrow> string list \<Rightarrow> string option \<Rightarrow> crash + event list" where
  "handleRequestTokens e s err =
     (let logged = logSplitError err
      in case s of
           [] \<Rightarrow> Inl IndexOutOfRange
         | s0 # args \<Rightarrow>
             if s0 \<noteq> ''scp'' then
               Inr (logged @
                    [Reply False (Some ''Only scp is supported''),
                     ChanWrite (''Only scp is supported'' @ [CHR 0x0A]),
                     ChanClose])
             else
               let opts = parseOptions args;
                   source =
                     (if From opts then
                        StartSCPSource opts #
                        (case startSCPSource e opts of
                           Some msg \<Rightarrow> [Reply False (Some msg)]
                         | None \<Rightarrow> [Reply True None])
                      else []);
                   sink =
                     (if To opts then
                        (let (statusCode, ok, evs) =
                               (if length (fileNames opts) \<noteq> 1 then
                                  (1, False,
                                   [LogError ''Error in number of targets (ambiguous target)'',
                                    SendErrorToClient ''scp: ambiguous target''])
                                else (0, True, [StartSCPSink opts]))
                         in evs @ sendExitStatusCode e statusCode @ [ChanClose, Reply ok None])
                      else [])
               in Inr (logged @ source @ sink))"

text \<open>
  \<open>handleRequest\<close> itself: the payload loses its four-byte length prefix
  (\<open>req.Payload[4:]\<close> panics on a shorter payload) and goes through the tokenizer
  \<open>split\<close>, the external \<open>shlex.Split\<close>, which returns the tokens it recovered together
  with its error.
\<close>

definition handleRequest ::
  "(string \<Rightarrow> string list \<times> string option) \<Rightarrow> env \<Rightarrow> string \<Rightarrow> crash + event list" where
  "handleRequest split e payload =
     (if length payload < 4 then Inl SliceBoundsOutOfRange
      else case split (drop 4 payload) of (s, err) \<Rightarrow> handleRequestTokens e s err)"

text \<open>
  The \<open>switch\<close> on the request type inside the loop of \<open>handleNewChannel\<close>, and the
  function around it.  An exec request only starts a goroutine, which then runs
  \<open>handleRequest\<close> on its own.
\<close>

definition requestSwitch :: "env \<Rightarrow> string \<Rightarrow> string \<Rightarrow> crash + event list" where
  "requestSwitch e reqType payload =
     (if reqType = ''exec'' then Inr [GoHandleRequest payload]
      else if reqType = ''shell'' then
        Inr [ChanWrite (''Opening a shell is not supported by this server'' @ [CHR 0x0A]),
             Reply False None]
      else if reqType = ''env'' then Inr [Reply True None]
      else if reqType = ''subsystem'' then
        (if length payload < 4 then Inl SliceBoundsOutOfRange
         else if drop 4 payload = ''sftp'' then Inr (handleSFTP e @ [Reply True None])
         else Inr [Reply True None])
      else Inr [Reply True None])"

fun requestLoop :: "env \<Rightarrow> (string \<times> string) list \<Rightarrow> crash + event list" where
  "requestLoop e [] = Inr []"
| "requestLoop e ((reqType, payload) # reqs) =
     (case requestSwitch e reqType payload of
        Inl c \<Rightarrow> Inl c
      | Inr evs \<Rightarrow>
          (case requestLoop e reqs of
             Inl c \<Rightarrow> Inl c
           | Inr evs' \<Rightarrow> Inr (evs @ evs')))"

definition handleNewChannel :: "env \<Rightarrow> string \<Rightarrow> (string \<times> string) list \<Rightarrow> crash + event list" where
  "handleNewChannel e channelType reqs =
     (if channelType \<noteq> ''session'' then Inr [Reject ''unknown channel type'']
      else case acceptErr e of
             Some err \<Rightarrow> Inl (Panic ''could not accept channel.'')
           | None \<Rightarrow> requestLoop e reqs)"


section \<open>Observations on a run\<close>

fun isClose :: "event \<Rightarrow> bool" where
  "isClose ChanClose = True"
| "isClose _ = False"

fun isReply :: "event \<Rightarrow> bool" where
  "isReply (Reply ok msg) = True"
| "isReply _ = False"

fun isEngineRun :: "event \<Rightarrow> bool" where
  "isEngineRun (StartSCPSource opts) = True"
| "isEngineRun (StartSCPSink opts) = True"
| "isEngineRun SFTPServe = True"
| "isEngineRun _ = False"

fun isExitStatus :: "event \<Rightarrow> bool" where
  "isExitStatus (SendRequest name wantReply payload) = (name = ''exit-status'')"
| "isExitStatus _ = False"

text \<open>The status bytes delivered: byte 3 of every exit-status request, in order.\<close>

fun statusByte :: "event \<Rightarrow> 8 word list" where
  "statusByte (SendRequest name wantReply payload) =
     (if name = ''exit-status'' then take 1 (drop 3 payload) else [])"
| "statusByte _ = []"

definition exitStatusBytes :: "event list \<Rightarrow> 8 word list" where
  "exitStatusBytes tr = concat (map statusByte tr)"

text \<open>Environments for concrete runs: every external call succeeds; the sink fails.\<close>

definition quietEnv :: env where
  "quietEnv =
     \<lparr>startSCPSource = (\<lambda>opts. None), startSCPSink = (\<lambda>opts. None),
      sendRequestErr = None, sftpNewServerErr = None, sftpServe = ServeNil,
      acceptErr = None\<rparr>"

definition failingSinkEnv :: env where
  "failingSinkEnv = quietEnv\<lparr>startSCPSink := (\<lambda>opts. Some ''permission denied'')\<rparr>"

text \<open>
  The tokens the option loop recognises as flags, and the five booleans of an options
  record taken together.
\<close>

definition flagTokens :: "string list" where
  "flagTokens = [''-f'', ''-t'', ''-d'', ''-p'', ''-r'', ''-v'']"

definition flagSet :: "scpOptions \<Rightarrow> bool \<times> bool \<times> bool \<times> bool \<times> bool" where
  "flagSet opts = (To opts, From opts, TargetIsDir opts, Recursive opts, PreserveMode opts)"

text \<open>
  Two properties of a finished run.  \<open>closedOnceAfterExitStatus\<close>: the run returned, it
  closed the channel exactly once, and an exit-status request was sent before that close.
  \<open>ambiguousTargetOnly\<close>: the run returned having started no engine, sent exit status 1
  and nothing else as status, replied to the request once, with failure, and closed the
  channel once.
\<close>

definition closedOnceAfterExitStatus :: "crash + event list \<Rightarrow> bool" where
  "closedOnceAfterExitStatus r =
     (case r of
        Inl c \<Rightarrow> False
      | Inr tr \<Rightarrow>
          length (filter isClose tr) = 1 \<and>
          list_ex isExitStatus (takeWhile (\<lambda>ev. \<not> isClose ev) tr))"

definition ambiguousTargetOnly :: "crash + event list \<Rightarrow> bool" where
  "ambiguousTargetOnly r =
     (case r of
        Inl c \<Rightarrow> False
      | Inr tr \<Rightarrow>
          filter isEngineRun tr = [] \<and> exitStatusBytes tr = [1] \<and>
          filter isReply tr = [Reply False None] \<and> length (filter isClose tr) = 1)"

section \<open>Basic facts\<close>

lemma exitStatusBuffer_eq: "(replicate 4 (0::8 word))[3 := status] = [0, 0, 0, status]"
  by (simp add: numeral_eq_Suc)

lemma sendExitStatusCode_eq:
  "sendExitStatusCode e status =
     SendRequest ''exit-status'' False [0, 0, 0, status] #
     (case sendRequestErr e of
        Some err \<Rightarrow> [LogError (''Failed to forward exit-status to client: '' @ err)]
      | None \<Rightarrow> [])"
  by (simp add: sendExitStatusCode_def exitStatusBuffer_eq)

lemma sendExitStatusCode_quiet [simp]:
  "sendRequestErr e = None \<Longrightarrow>
     sendExitStatusCode e status = [SendRequest ''exit-status'' False [0, 0, 0, status]]"
  by (simp add: sendExitStatusCode_eq)

lemma sendExitStatusCode_observed:
  "filter isClose (sendExitStatusCode e status) = []"
  "filter isReply (sendExitStatusCode e status) = []"
  "filter isEngineRun (sendExitStatusCode e status) = []"
  "exitStatusBytes (sendExitStatusCode e status) = [status]"
  "takeWhile (\<lambda>ev. \<not> isClose ev) (sendExitStatusCode e status @ ChanClose # rest)
     = sendExitStatusCode e status"
  "list_ex isExitStatus (sendExitStatusCode e status)"
  by (cases "sendRequestErr e"; simp add: sendExitStatusCode_eq exitStatusBytes_def)+

lemma logSplitError_observed:
  "filter isClose (logSplitError err) = []"
  "filter isReply (logSplitError err) = []"
  "filter isEngineRun (logSplitError err) = []"
  "filter isExitStatus (logSplitError err) = []"
  "exitStatusBytes (logSplitError err) = []"
  by (cases err; simp add: logSplitError_def exitStatusBytes_def)+

lemma exitStatusBytes_simps [simp]:
  "exitStatusBytes [] = []"
  "exitStatusBytes (ev # tr) = statusByte ev @ exitStatusBytes tr"
  "exitStatusBytes (xs @ ys) = exitStatusBytes xs @ exitStatusBytes ys"
  by (simp_all add: exitStatusBytes_def)

lemma quietEnv_simps [simp]:
  "startSCPSource quietEnv = (\<lambda>opts. None)"
  "startSCPSink quietEnv = (\<lambda>opts. None)"
  "sendRequestErr quietEnv = None"
  "sftpNewServerErr quietEnv = None"
  "sftpServe quietEnv = ServeNil"
  "acceptErr quietEnv = None"
  by (simp_all add: quietEnv_def)

lemma failingSinkEnv_simps [simp]:
  "startSCPSource failingSinkEnv = (\<lambda>opts. None)"
  "startSCPSink failingSinkEnv = (\<lambda>opts. Some ''permission denied'')"
  "sendRequestErr failingSinkEnv = None"
  by (simp_all add: failingSinkEnv_def)

section \<open>Rejection of commands other than scp\<close>

text \<open>
  C6. An exec request whose first token is not \<open>scp\<close> gets a failure reply, the
  plaintext line "Only scp is supported" on the channel and a closed channel, in this
  order and with nothing after: no engine is started and no option is parsed.  A split
  error, if there was one, has been logged before.
\<close>

theorem non_scp_rejected:
  "s0 \<noteq> ''scp'' \<Longrightarrow>
     handleRequestTokens e (s0 # rest) err =
       Inr (logSplitError err @
            [Reply False (Some ''Only scp is supported''),
             ChanWrite (''Only scp is supported'' @ [CHR 0x0A]),
             ChanClose])"
  by (simp add: handleRequestTokens_def)

theorem non_scp_rejected_witness:
  "''ls'' \<noteq> ''scp'' \<and>
   handleRequestTokens quietEnv [''ls'', ''-l''] None =
     Inr [Reply False (Some ''Only scp is supported''),
          ChanWrite (''Only scp is supported'' @ [CHR 0x0A]),
          ChanClose]"
  using non_scp_rejected [of "''ls''" quietEnv "[''-l'']" None]
  by (simp add: logSplitError_def)


section \<open>The option loop\<close>

lemma foldl_parseElem_stopped: "foldl parseElem (False, opts) args = (False, opts)"
  by (induction args) simp_all

lemma parseElem_flag_free:
  "elem \<noteq> ''--'' \<Longrightarrow>
     parseElem (True, opts) elem =
       (True, opts\<lparr>To := To opts \<or> elem = ''-t'',
                    From := From opts \<or> elem = ''-f'',
                    TargetIsDir := TargetIsDir opts \<or> elem = ''-d'',
                    Recursive := Recursive opts \<or> elem = ''-r'',
                    PreserveMode := PreserveMode opts \<or> elem = ''-p'',
                    fileNames := fileNames opts @ filter (\<lambda>a. a \<notin> set flagTokens) [elem]\<rparr>)"
  by (simp add: flagTokens_def)

lemma foldl_parseElem_flags:
  "''--'' \<notin> set args \<Longrightarrow>
     foldl parseElem (True, opts) args =
       (True, opts\<lparr>To := To opts \<or> ''-t'' \<in> set args,
                    From := From opts \<or> ''-f'' \<in> set args,
                    TargetIsDir := TargetIsDir opts \<or> ''-d'' \<in> set args,
                    Recursive := Recursive opts \<or> ''-r'' \<in> set args,
                    PreserveMode := PreserveMode opts \<or> ''-p'' \<in> set args,
                    fileNames := fileNames opts @ filter (\<lambda>a. a \<notin> set flagTokens) args\<rparr>)"
proof (induction args arbitrary: opts)
  case Nil
  show ?case by simp
next
  case (Cons a args)
  from Cons.prems have a: "a \<noteq> ''--''" and rest: "''--'' \<notin> set args"
    by auto
  show ?case
    unfolding foldl_Cons parseElem_flag_free [OF a] Cons.IH [OF rest]
    by (auto simp: flagTokens_def)
qed

lemma parseOptions_flag_free:
  "''--'' \<notin> set args \<Longrightarrow>
     parseOptions args =
       \<lparr>To = ''-t'' \<in> set args, From = ''-f'' \<in> set args,
        TargetIsDir = ''-d'' \<in> set args, Recursive = ''-r'' \<in> set args,
        PreserveMode = ''-p'' \<in> set args,
        fileNames = filter (\<lambda>a. a \<notin> set flagTokens) args\<rparr>"
  by (simp add: parseOptions_def foldl_parseElem_flags emptyOptions_def)

lemma parseOptions_after_dashes: "parseOptions (xs @ ''--'' # ys) = parseOptions xs"
proof (cases "foldl parseElem (True, emptyOptions) xs")
  case (Pair b opts)
  then show ?thesis
    by (cases b) (simp_all add: parseOptions_def foldl_parseElem_stopped)
qed


text \<open>
  C1. The claim is that after \<open>--\<close> every further token becomes a file name.  The loop
  does stop reading flags there, but it also stops reading anything: the tokens after
  \<open>--\<close> are dropped.  For \<open>scp -t -- -file\<close> the file-name list stays empty.
\<close>

theorem tokens_after_dashes_dropped:
  "parseOptions [''-t'', ''--'', ''-file''] =
     \<lparr>To = True, From = False, TargetIsDir = False, Recursive = False,
      PreserveMode = False, fileNames = []\<rparr>"
  by (simp add: parseOptions_def emptyOptions_def)

text \<open>
  C9. On a token sequence without \<open>--\<close> each flag of the result is set exactly when its
  token occurs; hence the five flags are the same for every permutation of the tokens,
  and putting in one more copy of a flag token that already occurs, at any place,
  leaves the whole options record as it was.
\<close>

theorem parseOptions_flags_exact:
  assumes "''--'' \<notin> set args"
  shows "To (parseOptions args) = (''-t'' \<in> set args) \<and>
         From (parseOptions args) = (''-f'' \<in> set args) \<and>
         TargetIsDir (parseOptions args) = (''-d'' \<in> set args) \<and>
         PreserveMode (parseOptions args) = (''-p'' \<in> set args) \<and>
         Recursive (parseOptions args) = (''-r'' \<in> set args) \<and>
         (\<forall>args'. mset args' = mset args \<longrightarrow>
            flagSet (parseOptions args') = flagSet (parseOptions args)) \<and>
         (\<forall>xs ys flag. args = xs @ ys \<and> flag \<in> set flagTokens \<and> flag \<in> set args \<longrightarrow>
            parseOptions (xs @ flag # ys) = parseOptions args)"
proof -
  have exact: "To (parseOptions args) = (''-t'' \<in> set args) \<and>
         From (parseOptions args) = (''-f'' \<in> set args) \<and>
         TargetIsDir (parseOptions args) = (''-d'' \<in> set args) \<and>
         PreserveMode (parseOptions args) = (''-p'' \<in> set args) \<and>
         Recursive (parseOptions args) = (''-r'' \<in> set args)"
    by (simp add: parseOptions_flag_free [OF assms])
  have perm: "flagSet (parseOptions args') = flagSet (parseOptions args)"
    if "mset args' = mset args" for args'
  proof -
    from that have same: "set args' = set args"
      by (rule mset_eq_setD)
    with assms have "''--'' \<notin> set args'"
      by simp
    then show ?thesis
      by (simp add: parseOptions_flag_free assms flagSet_def same)
  qed
  have again: "parseOptions (xs @ flag # ys) = parseOptions args"
    if "args = xs @ ys" "flag \<in> set flagTokens" "flag \<in> set args" for xs ys flag
  proof -
    from that(2) have flag: "flag \<noteq> ''--''"
      by (auto simp: flagTokens_def)
    with assms that(1) have free: "''--'' \<notin> set (xs @ flag # ys)"
      by auto
    from that(1,3) have same: "set (xs @ flag # ys) = set args"
      by auto
    from that(1,2) have names:
      "filter (\<lambda>a. a \<notin> set flagTokens) (xs @ flag # ys) = filter (\<lambda>a. a \<notin> set flagTokens) args"
      by simp
    show ?thesis
      unfolding parseOptions_flag_free [OF free] parseOptions_flag_free [OF assms] same names
      by (rule refl)
  qed
  from exact perm again show ?thesis
    by blast
qed

theorem parseOptions_flags_exact_witness:
  "''--'' \<notin> set [''-r'', ''-t'', ''dir''] \<and>
   To (parseOptions [''-r'', ''-t'', ''dir'']) \<and>
   Recursive (parseOptions [''-r'', ''-t'', ''dir'']) \<and>
   \<not> From (parseOptions [''-r'', ''-t'', ''dir'']) \<and>
   flagSet (parseOptions [''dir'', ''-t'', ''-r'']) = flagSet (parseOptions [''-r'', ''-t'', ''dir'']) \<and>
   parseOptions ([''-r'', ''-t''] @ ''-r'' # [''dir'']) = parseOptions [''-r'', ''-t'', ''dir'']"
proof -
  have free: "''--'' \<notin> set [''-r'', ''-t'', ''dir'']"
    by simp
  note fact = parseOptions_flags_exact [OF free]
  have perm: "mset [''dir'', ''-t'', ''-r''] = mset [''-r'', ''-t'', ''dir'']"
    by (simp add: add_mset_commute)
  have split: "[''-r'', ''-t'', ''dir''] = [''-r'', ''-t''] @ [''dir''] \<and>
      ''-r'' \<in> set flagTokens \<and> ''-r'' \<in> set [''-r'', ''-t'', ''dir'']"
    by (simp add: flagTokens_def)
  from fact perm have p: "flagSet (parseOptions [''dir'', ''-t'', ''-r'']) =
      flagSet (parseOptions [''-r'', ''-t'', ''dir''])"
    by blast
  from fact split have d: "parseOptions ([''-r'', ''-t''] @ ''-r'' # [''dir'']) =
      parseOptions [''-r'', ''-t'', ''dir'']"
    by blast
  from fact have "To (parseOptions [''-r'', ''-t'', ''dir'']) \<and>
      Recursive (parseOptions [''-r'', ''-t'', ''dir'']) \<and>
      \<not> From (parseOptions [''-r'', ''-t'', ''dir''])"
    by simp
  with free p d show ?thesis
    by blast
qed


section \<open>The exec handler\<close>

lemma handleRequest_short_payload:
  "length payload < 4 \<Longrightarrow> handleRequest split e payload = Inl SliceBoundsOutOfRange"
  by (simp add: handleRequest_def)

lemma handleRequest_tokens:
  "4 \<le> length payload \<Longrightarrow> split (drop 4 payload) = (s, err) \<Longrightarrow>
     handleRequest split e payload = handleRequestTokens e s err"
  by (simp add: handleRequest_def)

lemma handleNewChannel_accept_panics:
  "acceptErr e = Some msg \<Longrightarrow>
     handleNewChannel e ''session'' reqs = Inl (Panic ''could not accept channel.'')"
  by (simp add: handleNewChannel_def)

lemma handleRequestTokens_scp:
  "handleRequestTokens e (''scp'' # args) err =
     Inr (logSplitError err @
          (if From (parseOptions args) then
             [StartSCPSource (parseOptions args),
              Reply (startSCPSource e (parseOptions args) = None)
                    (startSCPSource e (parseOptions args))]
           else []) @
          (if To (parseOptions args) then
             (if length (fileNames (parseOptions args)) \<noteq> 1 then
                [LogError ''Error in number of targets (ambiguous target)'',
                 SendErrorToClient ''scp: ambiguous target''] @
                sendExitStatusCode e 1 @ [ChanClose, Reply False None]
              else
                [StartSCPSink (parseOptions args)] @
                sendExitStatusCode e 0 @ [ChanClose, Reply True None])
           else []))"
  by (cases "startSCPSource e (parseOptions args)")
     (simp_all add: handleRequestTokens_def Let_def)

text \<open>
  C4. The claim is that no exec payload crashes the process, also when the tokenizer
  recovers no token at all.  With an empty token list the handler reads \<open>s[0]\<close> and
  panics, whether or not a split error was logged before.
\<close>

theorem empty_token_list_panics:
  "handleRequestTokens e [] err = Inl IndexOutOfRange"
  by (simp add: handleRequestTokens_def)

text \<open>
  C7. When the tokens name \<open>scp\<close> and the parsed options have neither From nor To set,
  the handler does nothing beyond the log line of a split error: it starts no engine,
  sends no reply and no exit status, and does not close the channel.
\<close>

theorem neither_flag_falls_through:
  assumes "\<not> From (parseOptions args)" and "\<not> To (parseOptions args)"
  shows "\<exists>tr. handleRequestTokens e (''scp'' # args) err = Inr tr \<and>
           tr = logSplitError err \<and>
           filter isEngineRun tr = [] \<and> filter isReply tr = [] \<and>
           exitStatusBytes tr = [] \<and> filter isExitStatus tr = [] \<and>
           filter isClose tr = []"
  using assms by (simp add: handleRequestTokens_scp logSplitError_observed)

theorem neither_flag_falls_through_witness:
  "\<not> From (parseOptions [''-r'', ''file'']) \<and> \<not> To (parseOptions [''-r'', ''file'']) \<and>
   handleRequestTokens quietEnv [''scp'', ''-r'', ''file''] None = Inr []"
proof -
  have f: "\<not> From (parseOptions [''-r'', ''file''])"
    and t: "\<not> To (parseOptions [''-r'', ''file''])"
    by (simp_all add: parseOptions_def emptyOptions_def)
  from neither_flag_falls_through [OF f t, of quietEnv None]
  have "handleRequestTokens quietEnv [''scp'', ''-r'', ''file''] None = Inr []"
    by (simp add: logSplitError_def)
  with f t show ?thesis
    by blast
qed

text \<open>
  C10. When the parsed options have both From and To set, the handler first calls the
  source engine and replies to the request with its result, then goes through the sink
  branch and replies to the same request again: two replies in all.
\<close>

theorem both_flags_source_then_sink:
  assumes "opts = parseOptions args" and "From opts" and "To opts"
  shows "\<exists>tr. handleRequestTokens e (''scp'' # args) err = Inr tr \<and>
           tr = logSplitError err @
                [StartSCPSource opts,
                 Reply (startSCPSource e opts = None) (startSCPSource e opts)] @
                (if length (fileNames opts) \<noteq> 1
                 then [LogError ''Error in number of targets (ambiguous target)'',
                       SendErrorToClient ''scp: ambiguous target'']
                 else [StartSCPSink opts]) @
                sendExitStatusCode e (if length (fileNames opts) \<noteq> 1 then 1 else 0) @
                [ChanClose, Reply (length (fileNames opts) = 1) None] \<and>
           length (filter isReply tr) = 2"
  using assms
  by (simp add: handleRequestTokens_scp logSplitError_observed sendExitStatusCode_observed)

theorem both_flags_source_then_sink_witness:
  "From (parseOptions [''-f'', ''-t'', ''x'']) \<and> To (parseOptions [''-f'', ''-t'', ''x'']) \<and>
   handleRequestTokens quietEnv [''scp'', ''-f'', ''-t'', ''x''] None =
     Inr [StartSCPSource (parseOptions [''-f'', ''-t'', ''x'']), Reply True None,
          StartSCPSink (parseOptions [''-f'', ''-t'', ''x'']),
          SendRequest ''exit-status'' False [0, 0, 0, 0], ChanClose, Reply True None]"
proof -
  have f: "From (parseOptions [''-f'', ''-t'', ''x''])"
    and t: "To (parseOptions [''-f'', ''-t'', ''x''])"
    and n: "fileNames (parseOptions [''-f'', ''-t'', ''x'']) = [''x'']"
    by (simp_all add: parseOptions_def emptyOptions_def)
  from both_flags_source_then_sink [OF refl f t, of quietEnv None]
  have "handleRequestTokens quietEnv [''scp'', ''-f'', ''-t'', ''x''] None =
     Inr [StartSCPSource (parseOptions [''-f'', ''-t'', ''x'']), Reply True None,
          StartSCPSink (parseOptions [''-f'', ''-t'', ''x'']),
          SendRequest ''exit-status'' False [0, 0, 0, 0], ChanClose, Reply True None]"
    by (simp add: n logSplitError_def)
  with f t show ?thesis
    by blast
qed


text \<open>
  C3. The claim is that every request with To set and a file-name count other than one
  is refused at once: exit status 1, one failure reply, the channel closed, no engine
  run.  It fails when From is set as well: for \<open>scp -f -t a b\<close> the source engine is
  called on both names and the request gets its reply before the sink branch refuses.
\<close>

theorem ambiguous_target_counterexample:
  "To (parseOptions [''-f'', ''-t'', ''a'', ''b'']) \<and>
   length (fileNames (parseOptions [''-f'', ''-t'', ''a'', ''b''])) = 2 \<and>
   handleRequestTokens quietEnv [''scp'', ''-f'', ''-t'', ''a'', ''b''] None =
     Inr [StartSCPSource (parseOptions [''-f'', ''-t'', ''a'', ''b'']), Reply True None,
          LogError ''Error in number of targets (ambiguous target)'',
          SendErrorToClient ''scp: ambiguous target'',
          SendRequest ''exit-status'' False [0, 0, 0, 1], ChanClose, Reply False None] \<and>
   \<not> ambiguousTargetOnly
         (handleRequestTokens quietEnv [''scp'', ''-f'', ''-t'', ''a'', ''b''] None)"
proof -
  have opts: "parseOptions [''-f'', ''-t'', ''a'', ''b''] =
      \<lparr>To = True, From = True, TargetIsDir = False, Recursive = False,
       PreserveMode = False, fileNames = [''a'', ''b'']\<rparr>"
    by (simp add: parseOptions_def emptyOptions_def)
  show ?thesis
    by (simp add: handleRequestTokens_scp opts logSplitError_def ambiguousTargetOnly_def)
qed

text \<open>
  C3, as the code has it: when To is set, From is not, and the number of file names is
  not one, the handler logs the error, sends "scp: ambiguous target" to the client,
  sends exit status 1, closes the channel and replies failure; it starts no engine.
\<close>

theorem ambiguous_target_rejected:
  assumes "opts = parseOptions args" and "To opts" and "\<not> From opts"
    and "length (fileNames opts) \<noteq> 1"
  shows "handleRequestTokens e (''scp'' # args) err =
           Inr (logSplitError err @
                [LogError ''Error in number of targets (ambiguous target)'',
                 SendErrorToClient ''scp: ambiguous target''] @
                sendExitStatusCode e 1 @ [ChanClose, Reply False None]) \<and>
         ambiguousTargetOnly (handleRequestTokens e (''scp'' # args) err)"
  using assms
  by (simp add: handleRequestTokens_scp ambiguousTargetOnly_def logSplitError_observed
        sendExitStatusCode_observed)

theorem ambiguous_target_rejected_witness:
  "To (parseOptions [''-t'', ''a'', ''b'']) \<and> \<not> From (parseOptions [''-t'', ''a'', ''b'']) \<and>
   length (fileNames (parseOptions [''-t'', ''a'', ''b''])) = 2 \<and>
   handleRequestTokens quietEnv [''scp'', ''-t'', ''a'', ''b''] None =
     Inr [LogError ''Error in number of targets (ambiguous target)'',
          SendErrorToClient ''scp: ambiguous target'',
          SendRequest ''exit-status'' False [0, 0, 0, 1], ChanClose, Reply False None] \<and>
   ambiguousTargetOnly (handleRequestTokens quietEnv [''scp'', ''-t'', ''a'', ''b''] None)"
proof -
  have t: "To (parseOptions [''-t'', ''a'', ''b''])"
    and f: "\<not> From (parseOptions [''-t'', ''a'', ''b''])"
    and n: "length (fileNames (parseOptions [''-t'', ''a'', ''b''])) = 2"
    by (simp_all add: parseOptions_def emptyOptions_def)
  from n have n1: "length (fileNames (parseOptions [''-t'', ''a'', ''b''])) \<noteq> 1"
    by simp
  note fact = ambiguous_target_rejected [OF refl t f n1, of quietEnv None]
  from fact have
    "handleRequestTokens quietEnv [''scp'', ''-t'', ''a'', ''b''] None =
       Inr [LogError ''Error in number of targets (ambiguous target)'',
            SendErrorToClient ''scp: ambiguous target'',
            SendRequest ''exit-status'' False [0, 0, 0, 1], ChanClose, Reply False None]"
    by (simp add: logSplitError_def)
  moreover from fact have
    "ambiguousTargetOnly (handleRequestTokens quietEnv [''scp'', ''-t'', ''a'', ''b''] None)"
    by (rule conjunct2)
  ultimately show ?thesis
    using t f n by blast
qed

text \<open>
  C5. The claim is that on every path the channel is closed exactly once and only after
  the exit status was sent.  On the rejection path the channel is closed without any
  exit status.
\<close>

theorem close_without_status_counterexample:
  "handleRequestTokens quietEnv [''ls''] None =
     Inr [Reply False (Some ''Only scp is supported''),
          ChanWrite (''Only scp is supported'' @ [CHR 0x0A]), ChanClose] \<and>
   \<not> closedOnceAfterExitStatus (handleRequestTokens quietEnv [''ls''] None)"
  by (simp add: handleRequestTokens_def logSplitError_def closedOnceAfterExitStatus_def)

text \<open>
  C5, as the code has it.  On the rejection path the handler closes the channel once
  and sends no exit status.  On the sink path (To set) it closes the channel once,
  after the exit-status request.  When To is not set (source only, or neither flag) the
  handler itself sends no exit status and does not close the channel; what
  \<open>startSCPSource\<close> does with the channel is outside this file.
\<close>

theorem channel_close_by_path:
  assumes "opts = parseOptions args"
  shows "(s0 \<noteq> ''scp'' \<longrightarrow>
            (\<exists>tr. handleRequestTokens e (s0 # args) err = Inr tr \<and>
                  length (filter isClose tr) = 1 \<and> exitStatusBytes tr = [])) \<and>
         (To opts \<longrightarrow> closedOnceAfterExitStatus (handleRequestTokens e (''scp'' # args) err)) \<and>
         (\<not> To opts \<longrightarrow>
            (\<exists>tr. handleRequestTokens e (''scp'' # args) err = Inr tr \<and>
                  filter isClose tr = [] \<and> exitStatusBytes tr = []))"
proof (intro conjI impI)
  assume "s0 \<noteq> ''scp''"
  then show "\<exists>tr. handleRequestTokens e (s0 # args) err = Inr tr \<and>
      length (filter isClose tr) = 1 \<and> exitStatusBytes tr = []"
    by (simp add: handleRequestTokens_def logSplitError_observed)
next
  assume "To opts"
  with assms have t: "To (parseOptions args)"
    by simp
  have before: "takeWhile (\<lambda>ev. \<not> isClose ev) (pre @ sendExitStatusCode e st @ ChanClose # post)
      = pre @ sendExitStatusCode e st" if "filter isClose pre = []" for pre st post
  proof -
    from that have "\<forall>ev\<in>set pre. \<not> isClose ev"
      by (simp add: filter_empty_conv)
    then show ?thesis
      by (simp add: sendExitStatusCode_observed)
  qed
  show "closedOnceAfterExitStatus (handleRequestTokens e (''scp'' # args) err)"
  proof (cases "length (fileNames (parseOptions args)) \<noteq> 1")
    case True
    let ?pre = "logSplitError err @
        (if From (parseOptions args) then
           [StartSCPSource (parseOptions args),
            Reply (startSCPSource e (parseOptions args) = None)
                  (startSCPSource e (parseOptions args))]
         else []) @
        [LogError ''Error in number of targets (ambiguous target)'',
         SendErrorToClient ''scp: ambiguous target'']"
    have run: "handleRequestTokens e (''scp'' # args) err =
        Inr (?pre @ sendExitStatusCode e 1 @ ChanClose # [Reply False None])"
      using t True by (simp add: handleRequestTokens_scp)
    have pre: "filter isClose ?pre = []"
      by (simp add: logSplitError_observed)
    show ?thesis
      unfolding run closedOnceAfterExitStatus_def sum.case before [OF pre]
      using pre by (simp add: sendExitStatusCode_observed)
  next
    case False
    let ?pre = "logSplitError err @
        (if From (parseOptions args) then
           [StartSCPSource (parseOptions args),
            Reply (startSCPSource e (parseOptions args) = None)
                  (startSCPSource e (parseOptions args))]
         else []) @
        [StartSCPSink (parseOptions args)]"
    have run: "handleRequestTokens e (''scp'' # args) err =
        Inr (?pre @ sendExitStatusCode e 0 @ ChanClose # [Reply True None])"
      using t False by (simp add: handleRequestTokens_scp)
    have pre: "filter isClose ?pre = []"
      by (simp add: logSplitError_observed)
    show ?thesis
      unfolding run closedOnceAfterExitStatus_def sum.case before [OF pre]
      using pre by (simp add: sendExitStatusCode_observed)
  qed
next
  assume "\<not> To opts"
  with assms have "\<not> To (parseOptions args)"
    by simp
  then show "\<exists>tr. handleRequestTokens e (''scp'' # args) err = Inr tr \<and>
      filter isClose tr = [] \<and> exitStatusBytes tr = []"
    by (simp add: handleRequestTokens_scp logSplitError_observed)
qed


theorem channel_close_by_path_witness:
  "(\<exists>tr. handleRequestTokens quietEnv [''ls'', ''-t'', ''x''] None = Inr tr \<and>
         length (filter isClose tr) = 1 \<and> exitStatusBytes tr = []) \<and>
   closedOnceAfterExitStatus (handleRequestTokens quietEnv [''scp'', ''-t'', ''x''] None) \<and>
   (\<exists>tr. handleRequestTokens quietEnv [''scp'', ''-f'', ''x''] None = Inr tr \<and>
         filter isClose tr = [] \<and> exitStatusBytes tr = [])"
proof -
  have t: "To (parseOptions [''-t'', ''x''])"
    and f: "\<not> To (parseOptions [''-f'', ''x''])"
    and ls: "''ls'' \<noteq> ''scp''"
    by (simp_all add: parseOptions_def emptyOptions_def)
  note sink = channel_close_by_path [OF refl, of "''ls''" quietEnv "[''-t'', ''x'']" None]
  note source = channel_close_by_path [OF refl, of "''ls''" quietEnv "[''-f'', ''x'']" None]
  from sink ls have
    "\<exists>tr. handleRequestTokens quietEnv [''ls'', ''-t'', ''x''] None = Inr tr \<and>
         length (filter isClose tr) = 1 \<and> exitStatusBytes tr = []"
    by blast
  moreover from sink t have
    "closedOnceAfterExitStatus (handleRequestTokens quietEnv [''scp'', ''-t'', ''x''] None)"
    by blast
  moreover from source f have
    "\<exists>tr. handleRequestTokens quietEnv [''scp'', ''-f'', ''x''] None = Inr tr \<and>
         filter isClose tr = [] \<and> exitStatusBytes tr = []"
    by blast
  ultimately show ?thesis
    by blast
qed

text \<open>
  C2. The claim is that the exit status is 0 exactly when the engine finished cleanly,
  so that a failed sink run gives a status other than 0.  The sink branch never looks
  at what \<open>startSCPSink\<close> did: the status variable stays 0 whenever the sink is run.
  Here the sink fails on \<open>scp -t target\<close> and the client is sent exit status 0 and a
  success reply.
\<close>

theorem failed_sink_reports_zero:
  "startSCPSink failingSinkEnv (parseOptions [''-t'', ''target'']) = Some ''permission denied'' \<and>
   handleRequestTokens failingSinkEnv [''scp'', ''-t'', ''target''] None =
     Inr [StartSCPSink \<lparr>To = True, From = False, TargetIsDir = False, Recursive = False,
                        PreserveMode = False, fileNames = [''target'']\<rparr>,
          SendRequest ''exit-status'' False [0, 0, 0, 0], ChanClose, Reply True None]"
proof -
  have opts: "parseOptions [''-t'', ''target''] =
      \<lparr>To = True, From = False, TargetIsDir = False, Recursive = False,
       PreserveMode = False, fileNames = [''target'']\<rparr>"
    by (simp add: parseOptions_def emptyOptions_def)
  show ?thesis
    by (simp add: handleRequestTokens_scp opts logSplitError_def)
qed

lemma sink_status_ignores_outcome:
  assumes "To (parseOptions args)" and "\<not> From (parseOptions args)"
    and "length (fileNames (parseOptions args)) = 1"
  shows "\<exists>tr. handleRequestTokens e (''scp'' # args) err = Inr tr \<and> exitStatusBytes tr = [0]"
  using assms
  by (simp add: handleRequestTokens_scp logSplitError_observed sendExitStatusCode_observed)

lemma source_only_sends_no_status:
  assumes "From (parseOptions args)" and "\<not> To (parseOptions args)"
  shows "\<exists>tr. handleRequestTokens e (''scp'' # args) err = Inr tr \<and> exitStatusBytes tr = []"
  using assms
  by (simp add: handleRequestTokens_scp logSplitError_observed)

section \<open>Subsystem requests\<close>

text \<open>
  C8. A subsystem request whose payload, after the four-byte length prefix, is \<open>sftp\<close>
  hands the channel to the sftp server; once the server is created and has served, exit
  status 0 is sent for a nil or end-of-file result and 1 for any other, the channel is
  closed and the request gets a positive reply.  A subsystem request with any other
  name gets the positive reply and nothing else.
\<close>

theorem subsystem_request:
  assumes "length pre = 4"
  shows "(sftpNewServerErr e = None \<longrightarrow>
            (\<exists>tr. requestSwitch e ''subsystem'' (pre @ ''sftp'') = Inr tr \<and>
                  tr = [SFTPServe] @
                       sendExitStatusCode e
                         (if sftpServe e = ServeNil \<or> sftpServe e = ServeEOF then 0 else 1) @
                       [ChanClose, SFTPClose, Reply True None] \<and>
                  exitStatusBytes tr =
                    [if sftpServe e = ServeNil \<or> sftpServe e = ServeEOF then 0 else 1])) \<and>
         (name \<noteq> ''sftp'' \<longrightarrow>
            requestSwitch e ''subsystem'' (pre @ name) = Inr [Reply True None])"
  using assms
  by (simp add: requestSwitch_def handleSFTP_def sendExitStatusCode_observed)

theorem subsystem_request_witness:
  "length [CHR 0x00, CHR 0x00, CHR 0x00, CHR 0x04] = 4 \<and>
   requestSwitch quietEnv ''subsystem'' ([CHR 0x00, CHR 0x00, CHR 0x00, CHR 0x04] @ ''sftp'') =
     Inr [SFTPServe, SendRequest ''exit-status'' False [0, 0, 0, 0], ChanClose, SFTPClose,
          Reply True None] \<and>
   requestSwitch (quietEnv\<lparr>sftpServe := ServeError ''connection lost''\<rparr>) ''subsystem''
       ([CHR 0x00, CHR 0x00, CHR 0x00, CHR 0x04] @ ''sftp'') =
     Inr [SFTPServe, SendRequest ''exit-status'' False [0, 0, 0, 1], ChanClose, SFTPClose,
          Reply True None] \<and>
   requestSwitch quietEnv ''subsystem'' ([CHR 0x00, CHR 0x00, CHR 0x00, CHR 0x04] @ ''scp'') =
     Inr [Reply True None]"
proof -
  have len: "length [CHR 0x00, CHR 0x00, CHR 0x00, CHR 0x04] = 4"
    by simp
  have other: "''scp'' \<noteq> ''sftp''"
    by simp
  note clean = subsystem_request [OF len, of quietEnv "''scp''"]
  note broken = subsystem_request [OF len,
      of "quietEnv\<lparr>sftpServe := ServeError ''connection lost''\<rparr>" "''scp''"]
  from clean have
    "requestSwitch quietEnv ''subsystem'' ([CHR 0x00, CHR 0x00, CHR 0x00, CHR 0x04] @ ''sftp'') =
       Inr [SFTPServe, SendRequest ''exit-status'' False [0, 0, 0, 0], ChanClose, SFTPClose,
            Reply True None]"
    by simp
  moreover from broken have
    "requestSwitch (quietEnv\<lparr>sftpServe := ServeError ''connection lost''\<rparr>) ''subsystem''
         ([CHR 0x00, CHR 0x00, CHR 0x00, CHR 0x04] @ ''sftp'') =
       Inr [SFTPServe, SendRequest ''exit-status'' False [0, 0, 0, 1], ChanClose, SFTPClose,
            Reply True None]"
    by (simp add: quietEnv_def)
  moreover from clean other have
    "requestSwitch quietEnv ''subsystem'' ([CHR 0x00, CHR 0x00, CHR 0x00, CHR 0x04] @ ''scp'') =
       Inr [Reply True None]"
    by blast
  ultimately show ?thesis
    using len by blast
qed


lemma subsystem_sftp_server_not_created:
  "length pre = 4 \<Longrightarrow> sftpNewServerErr e = Some msg \<Longrightarrow>
     requestSwitch e ''subsystem'' (pre @ ''sftp'') = Inr [Reply True None]"
  by (simp add: requestSwitch_def handleSFTP_def)

lemma subsystem_short_payload:
  "length payload < 4 \<Longrightarrow> requestSwitch e ''subsystem'' payload = Inl SliceBoundsOutOfRange"
  by (simp add: requestSwitch_def)

end
